theory Spec2Isabelle
  imports Main "HOL-Library.Char_ord" "HOL-Library.List_Lexorder" "HOL-Library.AList"
begin

section \<open>The gTLD map updater (package main of zlint-gtld-update)\<close>

subsection \<open>Data\<close>

text \<open>
  \<open>util.GTLDPeriod\<close> as the updater uses it: the three string fields that
  \<open>getTLDData\<close> fills and that \<open>gTLDMapTemplate\<close> reads.
\<close>

record GTLDPeriod =
  GTLD :: string
  DelegationDate :: string
  RemovalDate :: string

text \<open>
  Go \<open>error\<close> values. \<open>LibError\<close> is an error handed back by a library call
  (net/http, io, encoding/json, time, html/template, go/format, os); the other
  constructors are the \<open>fmt.Errorf\<close> wrappers of the source, with their arguments.
\<close>

datatype error =
    LibError string
  | UnableToFetch string error
  | UnexpectedStatus string nat nat
  | ReadBodyError string error
  | TLDListError error
  | GTLDJSONError error
  | UnmarshalError string error

text \<open>
  The Go map \<open>map[string]util.GTLDPeriod\<close> is kept as an association list with
  one pair per key: \<open>map_of\<close> is the lookup and \<open>AList.update\<close> the assignment
  \<open>m[k] = v\<close>. The order of the pairs is not observable: the template visits the
  keys in sorted order.
\<close>

type_synonym tldmap = "(string \<times> GTLDPeriod) list"

subsection \<open>Strings\<close>

text \<open>
  Strings are byte strings, as in Go. \<open>strings.HasPrefix\<close> and
  \<open>strings.Split\<close> compare bytes and are written out below.
  \<open>strings.TrimSpace\<close> and \<open>strings.ToLower\<close> decode UTF-8 and consult the
  Unicode tables of the standard library; they are parameters of the functions
  that call them, \<open>trimSpace\<close> and \<open>toLower\<close>.
\<close>

definition ICANN_GTLD_JSON :: string where
  "ICANN_GTLD_JSON = ''https://www.icann.org/resources/registries/gtlds/v2/gtlds.json''"

definition ICANN_TLDS :: string where
  "ICANN_TLDS = ''https://data.iana.org/TLD/tlds-alpha-by-domain.txt''"

fun HasPrefix :: "string \<Rightarrow> string \<Rightarrow> bool" where
  "HasPrefix s [] = True"
| "HasPrefix [] (p # ps) = False"
| "HasPrefix (c # cs) (p # ps) = (c = p \<and> HasPrefix cs ps)"

text \<open>\<open>strings.Split(s, "\n")\<close>: one more piece than there are newlines.\<close>

fun Split_nl :: "string \<Rightarrow> string list" where
  "Split_nl [] = [[]]"
| "Split_nl (c # cs) =
     (if c = CHR 0x0A then [] # Split_nl cs
      else (case Split_nl cs of
              [] \<Rightarrow> [[c]]
            | l # ls \<Rightarrow> (c # l) # ls))"

subsection \<open>Source B: the flat TLD list\<close>

text \<open>The test of the loop: \<open>strings.TrimSpace(tld) == "" || strings.HasPrefix(tld, "#")\<close>.\<close>

definition skipLine :: "(string \<Rightarrow> string) \<Rightarrow> string \<Rightarrow> bool" where
  "skipLine trimSpace tld = (trimSpace tld = [] \<or> HasPrefix tld ''#'')"

definition tldEntry :: "(string \<Rightarrow> string) \<Rightarrow> string \<Rightarrow> GTLDPeriod" where
  "tldEntry toLower tld =
     \<lparr>GTLD = toLower tld, DelegationDate = ''1985-01-01'', RemovalDate = []\<rparr>"

text \<open>The loop of \<open>getTLDData\<close> over the lines, \<open>results\<close> being the accumulator.\<close>

fun getTLDData_loop ::
  "(string \<Rightarrow> string) \<Rightarrow> (string \<Rightarrow> string) \<Rightarrow> string list \<Rightarrow> GTLDPeriod list
     \<Rightarrow> GTLDPeriod list" where
  "getTLDData_loop trimSpace toLower [] results = results"
| "getTLDData_loop trimSpace toLower (tld # tlds) results =
     (if skipLine trimSpace tld then getTLDData_loop trimSpace toLower tlds results
      else getTLDData_loop trimSpace toLower tlds (results @ [tldEntry toLower tld]))"

text \<open>What \<open>getTLDData\<close> does with the response body once it has it.\<close>

definition parseTLDs ::
  "(string \<Rightarrow> string) \<Rightarrow> (string \<Rightarrow> string) \<Rightarrow> string \<Rightarrow> GTLDPeriod list" where
  "parseTLDs trimSpace toLower respBody =
     getTLDData_loop trimSpace toLower (Split_nl respBody) []"

subsection \<open>Source A: filtering and validation\<close>

fun delegatedGTLDs_loop :: "GTLDPeriod list \<Rightarrow> GTLDPeriod list \<Rightarrow> GTLDPeriod list" where
  "delegatedGTLDs_loop [] results = results"
| "delegatedGTLDs_loop (gTLD # entries) results =
     (if DelegationDate gTLD = [] then delegatedGTLDs_loop entries results
      else delegatedGTLDs_loop entries (results @ [gTLD]))"

definition delegatedGTLDs :: "GTLDPeriod list \<Rightarrow> GTLDPeriod list" where
  "delegatedGTLDs entries = delegatedGTLDs_loop entries []"

text \<open>
  \<open>validateGTLDs\<close>. The parameter \<open>timeParse\<close> is the error result of
  \<open>time.Parse(util.GTLDPeriodDateFormat, s)\<close> (\<open>None\<close> is \<open>nil\<close>); the layout
  constant lives in package util.
\<close>

fun validateGTLDs :: "(string \<Rightarrow> error option) \<Rightarrow> GTLDPeriod list \<Rightarrow> error option" where
  "validateGTLDs timeParse [] = None"
| "validateGTLDs timeParse (gTLD # entries) =
     (case timeParse (DelegationDate gTLD) of
        Some err \<Rightarrow> Some err
      | None \<Rightarrow>
          (case timeParse (RemovalDate gTLD) of
             Some err \<Rightarrow>
               (if RemovalDate gTLD \<noteq> [] then Some err
                else validateGTLDs timeParse entries)
           | None \<Rightarrow> validateGTLDs timeParse entries))"

subsection \<open>The merge of \<open>renderGTLDMap\<close>\<close>

text \<open>First loop: \<open>tldMap[tld.GTLD] = tld\<close> for every delegated gTLD.\<close>

fun insertGTLDs :: "GTLDPeriod list \<Rightarrow> tldmap \<Rightarrow> tldmap" where
  "insertGTLDs [] tldMap = tldMap"
| "insertGTLDs (tld # tlds) tldMap = insertGTLDs tlds (AList.update (GTLD tld) tld tldMap)"

text \<open>Second loop: an entry of the TLD list is stored only when its key is not found.\<close>

fun fillTLDs :: "GTLDPeriod list \<Rightarrow> tldmap \<Rightarrow> tldmap" where
  "fillTLDs [] tldMap = tldMap"
| "fillTLDs (tld # tlds) tldMap =
     (case map_of tldMap (GTLD tld) of
        None \<Rightarrow> fillTLDs tlds (AList.update (GTLD tld) tld tldMap)
      | Some found \<Rightarrow> fillTLDs tlds tldMap)"

definition mergeTLDs :: "GTLDPeriod list \<Rightarrow> GTLDPeriod list \<Rightarrow> tldmap" where
  "mergeTLDs delegated allTLDs = fillTLDs allTLDs (insertGTLDs delegated [])"

subsection \<open>The template\<close>

text \<open>
  \<open>gTLDMapTemplate\<close> is an \<open>html/template\<close>; every action of it stands in
  plain text, so each field is written through the package's escaper, here
  the parameter \<open>esc\<close>. The left-trimming \<open>range\<close> and \<open>end\<close> actions remove the
  white space before them. A range over a map visits the keys in sorted order.
\<close>

definition withNewlines :: "string list \<Rightarrow> string" where
  "withNewlines ls = concat (map (\<lambda>l. l @ [CHR 0x0A]) ls)"

definition TAB :: string where
  "TAB = [CHR 0x09]"

definition templateHeader :: string where
  \<open>templateHeader = withNewlines
     [''// Code generated by go generate; DO NOT EDIT.'',
      ''// This file was generated by zlint-gtld-update.'',
      [],
      ''/*'',
      '' * ZLint Copyright 2018 Regents of the University of Michigan'',
      '' *'',
      '' * Licensed under the Apache License, Version 2.0 (the "License"); you may not'',
      '' * use this file except in compliance with the License. You may obtain a copy'',
      '' * of the License at http://www.apache.org/licenses/LICENSE-2.0'',
      '' *'',
      '' * Unless required by applicable law or agreed to in writing, software'',
      '' * distributed under the License is distributed on an "AS IS" BASIS,'',
      '' * WITHOUT WARRANTIES OR CONDITIONS OF ANY KIND, either express or'',
      '' * implied. See the License for the specific language governing'',
      '' * permissions and limitations under the License.'',
      '' */'',
      [],
      ''package util'',
      []]
     @ ''var tldMap = map[string]GTLDPeriod{''\<close>

definition templateEntry :: "(string \<Rightarrow> string) \<Rightarrow> GTLDPeriod \<Rightarrow> string" where
  \<open>templateEntry esc p =
     [CHR 0x0A] @ TAB @ ''"'' @ esc (GTLD p) @ ''": {'' @
     [CHR 0x0A] @ TAB @ TAB @ ''GTLD: "'' @ esc (GTLD p) @ ''",'' @
     [CHR 0x0A] @ TAB @ TAB @ ''DelegationDate: "'' @ esc (DelegationDate p) @ ''",'' @
     [CHR 0x0A] @ TAB @ TAB @ ''RemovalDate: "'' @ esc (RemovalDate p) @ ''",'' @
     [CHR 0x0A] @ TAB @ ''},''\<close>

definition onionComment :: string where
  \<open>onionComment = withNewlines
     [TAB @ ''// .onion is a special case and not a general gTLD. However, it is allowed in'',
      TAB @ ''// some circumstances in the web PKI so the Zlint gtldMap includes it with'',
      TAB @ ''// a delegationDate based on the CABF ballot to allow EV issuance for .onion'',
      TAB @ ''// domains: https://cabforum.org/2015/02/18/ballot-144-validation-rules-dot-onion-names/'']\<close>

definition onionEntry :: string where
  \<open>onionEntry = withNewlines
     [TAB @ ''"onion": {'',
      TAB @ TAB @ ''GTLD: "onion",'',
      TAB @ TAB @ ''DelegationDate: "2015-02-18",'',
      TAB @ TAB @ ''RemovalDate: "",'',
      TAB @ ''},'']\<close>

definition templateFooter :: string where
  \<open>templateFooter = [CHR 0x0A] @ onionComment @ onionEntry @ withNewlines [''}'']\<close>

definition gTLDMapTemplate_Execute :: "(string \<Rightarrow> string) \<Rightarrow> tldmap \<Rightarrow> string" where
  "gTLDMapTemplate_Execute esc tldMap =
     templateHeader @ concat (map (\<lambda>kv. templateEntry esc (snd kv)) (sort_key fst tldMap))
     @ templateFooter"

subsection \<open>The outside world\<close>

text \<open>
  What the program reads from its environment is a parameter of the model:
  the HTTP client, the JSON decoder, the date parser, \<open>strings.TrimSpace\<close>
  and \<open>strings.ToLower\<close>, the template's escaper and execution error,
  \<open>format.Source\<close>, the result of opening the output file, what a \<open>Write\<close>
  on the chosen writer returns, and the command line.
\<close>

record http_response =
  StatusCode :: nat
  Body :: "error + string"

record env =
  httpGet :: "string \<Rightarrow> error + http_response"
  jsonUnmarshal :: "string \<Rightarrow> error + GTLDPeriod list"
  timeParse :: "string \<Rightarrow> error option"
  TrimSpace :: "string \<Rightarrow> string"
  ToLower :: "string \<Rightarrow> string"
  htmlEscape :: "string \<Rightarrow> string"
  templateError :: "error option"
  formatSource :: "string \<Rightarrow> error + string"
  openFile :: "string \<Rightarrow> error option"
  writeResult :: "string \<Rightarrow> nat \<times> error option"
  Args :: "string list"

text \<open>
  What the program changes: the files, the two standard streams, and the order
  in which it opened files and sent requests.
\<close>

datatype event = OpenTruncate string | HttpGet string

record world =
  files :: "string \<rightharpoonup> string"
  stdout :: string
  stderr :: "error list"
  trace :: "event list"

datatype writer = Stdout | File string

definition getData :: "env \<Rightarrow> string \<Rightarrow> world \<Rightarrow> (error + string) \<times> world" where
  "getData e url w =
     (let w' = w\<lparr>trace := trace w @ [HttpGet url]\<rparr> in
      case httpGet e url of
        Inl err \<Rightarrow> (Inl (UnableToFetch url err), w')
      | Inr resp \<Rightarrow>
          (if StatusCode resp \<noteq> 200 then (Inl (UnexpectedStatus url 200 (StatusCode resp)), w')
           else (case Body resp of
                   Inl err \<Rightarrow> (Inl (ReadBodyError url err), w')
                 | Inr respBody \<Rightarrow> (Inr respBody, w'))))"

definition getTLDData :: "env \<Rightarrow> world \<Rightarrow> (error + GTLDPeriod list) \<times> world" where
  "getTLDData e w =
     (case getData e ICANN_TLDS w of
        (Inl err, w') \<Rightarrow> (Inl (TLDListError err), w')
      | (Inr respBody, w') \<Rightarrow> (Inr (parseTLDs (TrimSpace e) (ToLower e) respBody), w'))"

definition getGTLDData :: "env \<Rightarrow> world \<Rightarrow> (error + GTLDPeriod list) \<times> world" where
  "getGTLDData e w =
     (case getData e ICANN_GTLD_JSON w of
        (Inl err, w') \<Rightarrow> (Inl (GTLDJSONError err), w')
      | (Inr respBody, w') \<Rightarrow>
          (case jsonUnmarshal e respBody of
             Inl err \<Rightarrow> (Inl (UnmarshalError ICANN_GTLD_JSON err), w')
           | Inr gtlds \<Rightarrow> (Inr gtlds, w')))"

text \<open>
  \<open>writer.Write(p)\<close>: the writer takes the first \<open>n\<close> bytes of \<open>p\<close> and
  returns \<open>n\<close> and an error. The file was opened write-only, so the bytes go
  to its start.
\<close>

definition writeAt0 :: "string \<Rightarrow> string \<Rightarrow> string" where
  "writeAt0 old new = new @ drop (length new) old"

definition Write :: "env \<Rightarrow> writer \<Rightarrow> string \<Rightarrow> world \<Rightarrow> error option \<times> world" where
  "Write e wr p w =
     (let (n, err) = writeResult e p; taken = take n p in
      case wr of
        Stdout \<Rightarrow> (err, w\<lparr>stdout := stdout w @ taken\<rparr>)
      | File name \<Rightarrow>
          (err, w\<lparr>files := (files w)(name \<mapsto>
                     writeAt0 (case files w name of None \<Rightarrow> [] | Some old \<Rightarrow> old) taken)\<rparr>))"

definition renderGTLDMap :: "env \<Rightarrow> writer \<Rightarrow> world \<Rightarrow> error option \<times> world" where
  "renderGTLDMap e wr w0 =
     (case getGTLDData e w0 of
        (Inl err, w1) \<Rightarrow> (Some err, w1)
      | (Inr allGTLDs, w1) \<Rightarrow>
          (let delegated = delegatedGTLDs allGTLDs in
           case validateGTLDs (timeParse e) delegated of
             Some err \<Rightarrow> (Some err, w1)
           | None \<Rightarrow>
               (case getTLDData e w1 of
                  (Inl err, w2) \<Rightarrow> (Some err, w2)
                | (Inr allTLDs, w2) \<Rightarrow>
                    (let tldMap = mergeTLDs delegated allTLDs in
                     case templateError e of
                       Some err \<Rightarrow> (Some err, w2)
                     | None \<Rightarrow>
                         (case formatSource e (gTLDMapTemplate_Execute (htmlEscape e) tldMap) of
                            Inl err \<Rightarrow> (Some err, w2)
                          | Inr formatted \<Rightarrow> Write e wr formatted w2)))))"



section \<open>The lint execution engine\<close>

text \<open>
  Modelled from the spec: the result type of a lint run. The package that
  declares \<open>LintStatus\<close> and \<open>LintResult\<close> is not among the sources; the
  spec gives the five statuses and an optional detail string.
\<close>

datatype LintStatus = NotApplicable | Pass | Warn | Error | Fatal

record LintResult =
  status :: LintStatus
  detail :: "string option"

text \<open>
  Modelled from the spec: a lint, with its optional effective-date window
  \<open>(start, stop)\<close>, its applicability predicate and its verdict function. The
  lint type is not among the sources. An unexpected fault inside the predicate
  or the verdict function is the value \<open>Inl message\<close>. The certificate type
  belongs to the external decoder and stays a type parameter.
\<close>

record 'cert Lint =
  lint_name :: string
  lint_description :: string
  lint_citation :: string
  lint_source :: string
  lint_window :: "(int \<times> int) option"
  lint_applies :: "'cert \<Rightarrow> string + bool"
  lint_verdict :: "'cert \<Rightarrow> string + LintResult"

text \<open>
  Modelled from the spec: whether a certificate's issuance date lies outside
  the window \<open>[start, stop)\<close> a lint declares; the engine's code is not among
  the sources.
\<close>

definition outsideWindow :: "(int \<times> int) option \<Rightarrow> int \<Rightarrow> bool" where
  "outsideWindow win issuedAt =
     (case win of
        None \<Rightarrow> False
      | Some (start, stop) \<Rightarrow> issuedAt < start \<or> stop \<le> issuedAt)"

text \<open>
  Modelled from the spec: \<open>execute(lint, certificate)\<close>, section 4.2 of the
  spec, the method \<open>Execute\<close> that the test of the sources calls; its code is
  not among the sources. The steps are the effectivity check, the
  applicability check and the verdict check, a fault in either of the last two
  becoming a \<open>Fatal\<close> result with the fault's message. \<open>issued\<close> reads the
  issuance date of a certificate.
\<close>

definition execute :: "('cert \<Rightarrow> int) \<Rightarrow> 'cert Lint \<Rightarrow> 'cert \<Rightarrow> LintResult" where
  "execute issued lint cert =
     (if outsideWindow (lint_window lint) (issued cert)
      then \<lparr>status = NotApplicable, detail = None\<rparr>
      else (case lint_applies lint cert of
              Inl fault \<Rightarrow> \<lparr>status = Fatal, detail = Some fault\<rparr>
            | Inr applicable \<Rightarrow>
                (if \<not> applicable then \<lparr>status = NotApplicable, detail = None\<rparr>
                 else (case lint_verdict lint cert of
                         Inl fault \<Rightarrow> \<lparr>status = Fatal, detail = Some fault\<rparr>
                       | Inr result \<Rightarrow> result))))"

text \<open>
  Modelled from the spec: the batch run of section 2, every lint of the
  registry against every certificate under test; its code is not among the
  sources.
\<close>

definition executeBatch ::
  "('cert \<Rightarrow> int) \<Rightarrow> 'cert Lint list \<Rightarrow> 'cert list \<Rightarrow> LintResult list list" where
  "executeBatch issued lints certs = map (\<lambda>cert. map (\<lambda>lint. execute issued lint cert) lints) certs"

section \<open>Sample inputs\<close>

text \<open>
  \<open>strings.ToLower\<close> and \<open>strings.TrimSpace\<close> as they act on ASCII strings,
  for the sample feeds, which are ASCII.
\<close>

definition asciiIsUpper :: "char \<Rightarrow> bool" where
  "asciiIsUpper c = (65 \<le> (of_char c :: nat) \<and> (of_char c :: nat) \<le> 90)"

definition asciiToLowerChar :: "char \<Rightarrow> char" where
  "asciiToLowerChar c = (if asciiIsUpper c then char_of ((of_char c :: nat) + 32) else c)"

definition asciiToLower :: "string \<Rightarrow> string" where
  "asciiToLower s = map asciiToLowerChar s"

definition asciiIsSpace :: "char \<Rightarrow> bool" where
  "asciiIsSpace c = ((of_char c :: nat) \<in> {9, 10, 11, 12, 13, 32})"

definition asciiTrimSpace :: "string \<Rightarrow> string" where
  "asciiTrimSpace s = rev (dropWhile asciiIsSpace (rev (dropWhile asciiIsSpace s)))"

text \<open>
  A Source A record, one with an upper-case label, a world with no files, a
  world in which the output file exists, an environment in which every step
  succeeds and both feeds are ASCII, and two lints, one of which meets a fault.
\<close>

definition gtldA :: GTLDPeriod where
  "gtldA = \<lparr>GTLD = ''com'', DelegationDate = ''1999-09-09'', RemovalDate = ''2020-02-02''\<rparr>"

definition gtldUpper :: GTLDPeriod where
  "gtldUpper = \<lparr>GTLD = ''COM'', DelegationDate = ''1999-09-09'', RemovalDate = []\<rparr>"

definition world0 :: world where
  "world0 = \<lparr>files = Map.empty, stdout = [], stderr = [], trace = []\<rparr>"


definition envOK :: env where
  "envOK = \<lparr>httpGet = (\<lambda>url. Inr \<lparr>StatusCode = 200, Body = Inr ''COM''\<rparr>),
            jsonUnmarshal = (\<lambda>body. Inr [gtldA]),
            timeParse = (\<lambda>s. if length s = 10 then None else Some (LibError ''cannot parse'')),
            TrimSpace = asciiTrimSpace,
            ToLower = asciiToLower,
            htmlEscape = (\<lambda>s. s),
            templateError = None,
            formatSource = (\<lambda>src. Inr src),
            openFile = (\<lambda>name. None),
            writeResult = (\<lambda>p. (length p, None)),
            Args = []\<rparr>"

definition lintFaulty :: "int Lint" where
  "lintFaulty = \<lparr>lint_name = ''e_faulty'', lint_description = [], lint_citation = [],
                 lint_source = [], lint_window = Some (100, 200),
                 lint_applies = (\<lambda>cert. Inl ''index out of range''),
                 lint_verdict = (\<lambda>cert. Inr \<lparr>status = Pass, detail = None\<rparr>)\<rparr>"

definition lintSound :: "int Lint" where
  "lintSound = \<lparr>lint_name = ''e_sound'', lint_description = [], lint_citation = [],
                lint_source = [], lint_window = None,
                lint_applies = (\<lambda>cert. Inr True),
                lint_verdict = (\<lambda>cert. Inr \<lparr>status = Error, detail = Some ''violated''\<rparr>)\<rparr>"

text \<open>
  A second Source A record for the label of \<open>gtldA\<close>, a record whose
  delegation date is not in the date format, and environments in which the
  decoded feed holds that record, every request fails, or the one \<open>Write\<close>
  takes a single byte and fails. In \<open>envUpper\<close> Source A carries the label
  \<open>COM\<close> and the body of Source B is the line \<open>COM\<close>; in \<open>envList\<close> the
  body of Source B has a comment line, a blank line and two labels.
  \<open>issuedAt\<close> reads the issuance date of the sample certificates, which are
  their issuance dates.
\<close>

definition envUpper :: env where
  "envUpper = envOK\<lparr>jsonUnmarshal := (\<lambda>body. Inr [gtldUpper])\<rparr>"

definition envList :: env where
  "envList = envOK\<lparr>httpGet :=
     (\<lambda>url. Inr \<lparr>StatusCode = 200, Body = Inr ''# list\<newline>COM\<newline>  \<newline>uk''\<rparr>)\<rparr>"


definition gtldBadDate :: GTLDPeriod where
  "gtldBadDate = \<lparr>GTLD = ''museum'', DelegationDate = ''20 Oct 2001'', RemovalDate = []\<rparr>"

definition envBadDate :: env where
  "envBadDate = envOK\<lparr>jsonUnmarshal := (\<lambda>body. Inr [gtldA, gtldBadDate])\<rparr>"



definition issuedAt :: "int \<Rightarrow> int" where
  "issuedAt cert = cert"

section \<open>Facts about the loops\<close>

lemma getTLDData_loop_eq:
  "getTLDData_loop trimSpace toLower tlds results
     = results @ map (tldEntry toLower) (filter (\<lambda>l. \<not> skipLine trimSpace l) tlds)"
  by (induction tlds arbitrary: results) simp_all

lemma parseTLDs_eq:
  "parseTLDs trimSpace toLower respBody
     = map (tldEntry toLower) (filter (\<lambda>l. \<not> skipLine trimSpace l) (Split_nl respBody))"
  by (simp add: parseTLDs_def getTLDData_loop_eq)

lemma delegatedGTLDs_loop_eq:
  "delegatedGTLDs_loop entries results = results @ filter (\<lambda>g. DelegationDate g \<noteq> []) entries"
  by (induction entries arbitrary: results) simp_all

lemma delegatedGTLDs_eq:
  "delegatedGTLDs entries = filter (\<lambda>g. DelegationDate g \<noteq> []) entries"
  by (simp add: delegatedGTLDs_def delegatedGTLDs_loop_eq)

lemma validateGTLDs_None_iff:
  "validateGTLDs tp entries = None \<longleftrightarrow>
     (\<forall>g \<in> set entries. tp (DelegationDate g) = None \<and>
        (RemovalDate g \<noteq> [] \<longrightarrow> tp (RemovalDate g) = None))"
  by (induction entries) (auto split: option.splits)

lemma map_of_insertGTLDs:
  "map_of (insertGTLDs tlds m) = map_of m ++ map_of (rev (map (\<lambda>t. (GTLD t, t)) tlds))"
proof (induction tlds arbitrary: m)
  case Nil
  then show ?case by simp
next
  case (Cons t tlds)
  show ?case
    by (rule ext) (simp add: Cons.IH update_conv' map_add_def split: option.splits)
qed

lemma map_of_fillTLDs:
  "map_of (fillTLDs tlds m) = map_of (map (\<lambda>t. (GTLD t, t)) tlds) ++ map_of m"
proof (induction tlds arbitrary: m)
  case Nil
  then show ?case by simp
next
  case (Cons t tlds)
  show ?case
    by (rule ext) (auto simp add: Cons.IH update_conv' map_add_def split: option.splits)
qed

lemma map_of_rev_last:
  "map_of (rev (map (\<lambda>t. (GTLD t, t)) tlds)) k =
     (if k \<in> GTLD ` set tlds then Some (last (filter (\<lambda>t. GTLD t = k) tlds)) else None)"
proof (induction tlds rule: rev_induct)
  case Nil
  then show ?case by simp
next
  case (snoc t tlds)
  then show ?case by auto
qed

lemma map_of_first:
  "map_of (map (\<lambda>t. (GTLD t, t)) tlds) k =
     (if k \<in> GTLD ` set tlds then Some (hd (filter (\<lambda>t. GTLD t = k) tlds)) else None)"
  by (induction tlds) auto

lemma map_of_mergeTLDs:
  "map_of (mergeTLDs delegated allTLDs) k =
     (if k \<in> GTLD ` set delegated then Some (last (filter (\<lambda>t. GTLD t = k) delegated))
      else if k \<in> GTLD ` set allTLDs then Some (hd (filter (\<lambda>t. GTLD t = k) allTLDs))
      else None)"
  by (simp add: mergeTLDs_def map_of_fillTLDs map_of_insertGTLDs map_of_rev_last
      map_of_first map_add_def)

lemma distinct_insertGTLDs:
  "distinct (map fst m) \<Longrightarrow> distinct (map fst (insertGTLDs tlds m))"
  by (induction tlds arbitrary: m) (simp_all add: distinct_update)

lemma distinct_fillTLDs:
  "distinct (map fst m) \<Longrightarrow> distinct (map fst (fillTLDs tlds m))"
  by (induction tlds arbitrary: m) (simp_all add: distinct_update split: option.splits)

lemma distinct_mergeTLDs: "distinct (map fst (mergeTLDs delegated allTLDs))"
  by (simp add: mergeTLDs_def distinct_insertGTLDs distinct_fillTLDs)

lemma keys_mergeTLDs:
  "fst ` set (mergeTLDs delegated allTLDs) = GTLD ` set delegated \<union> GTLD ` set allTLDs"
proof -
  have "fst ` set (mergeTLDs delegated allTLDs) = dom (map_of (mergeTLDs delegated allTLDs))"
    by (simp add: dom_map_of_conv_image_fst)
  also have "\<dots> = GTLD ` set delegated \<union> GTLD ` set allTLDs"
    by (auto simp: dom_def map_of_mergeTLDs split: if_splits)
  finally show ?thesis .
qed

lemma HasPrefix_hash: "HasPrefix s ''#'' \<longleftrightarrow> (\<exists>r. s = CHR ''#'' # r)"
  by (cases s) auto

section \<open>The fields of the sample environments\<close>

lemma envOK_fields:
  "httpGet envOK = (\<lambda>url. Inr \<lparr>StatusCode = 200, Body = Inr ''COM''\<rparr>)"
  "jsonUnmarshal envOK = (\<lambda>body. Inr [gtldA])"
  "timeParse envOK = (\<lambda>s. if length s = 10 then None else Some (LibError ''cannot parse''))"
  "TrimSpace envOK = asciiTrimSpace"
  "ToLower envOK = asciiToLower"
  "htmlEscape envOK = (\<lambda>s. s)"
  "templateError envOK = None"
  "formatSource envOK = (\<lambda>src. Inr src)"
  "openFile envOK = (\<lambda>name. None)"
  "writeResult envOK = (\<lambda>p. (length p, None))"
  "Args envOK = []"
  by (simp_all add: envOK_def)

lemma envList_fields:
  "httpGet envList
     = (\<lambda>url. Inr \<lparr>StatusCode = 200, Body = Inr ''# list\<newline>COM\<newline>  \<newline>uk''\<rparr>)"
  "jsonUnmarshal envList = (\<lambda>body. Inr [gtldA])"
  "timeParse envList = (\<lambda>s. if length s = 10 then None else Some (LibError ''cannot parse''))"
  "TrimSpace envList = asciiTrimSpace"
  "ToLower envList = asciiToLower"
  "htmlEscape envList = (\<lambda>s. s)"
  "templateError envList = None"
  "formatSource envList = (\<lambda>src. Inr src)"
  "writeResult envList = (\<lambda>p. (length p, None))"
  by (simp_all add: envList_def envOK_def)

lemma envUpper_fields:
  "httpGet envUpper = (\<lambda>url. Inr \<lparr>StatusCode = 200, Body = Inr ''COM''\<rparr>)"
  "jsonUnmarshal envUpper = (\<lambda>body. Inr [gtldUpper])"
  "timeParse envUpper = (\<lambda>s. if length s = 10 then None else Some (LibError ''cannot parse''))"
  "TrimSpace envUpper = asciiTrimSpace"
  "ToLower envUpper = asciiToLower"
  "htmlEscape envUpper = (\<lambda>s. s)"
  "templateError envUpper = None"
  "formatSource envUpper = (\<lambda>src. Inr src)"
  "writeResult envUpper = (\<lambda>p. (length p, None))"
  by (simp_all add: envUpper_def envOK_def)

section \<open>Fail-fast validation\<close>

lemma snd_getData: "snd (getData e url w) = w\<lparr>trace := trace w @ [HttpGet url]\<rparr>"
  by (simp add: getData_def Let_def split: sum.splits)

lemma snd_getGTLDData: "snd (getGTLDData e w) = w\<lparr>trace := trace w @ [HttpGet ICANN_GTLD_JSON]\<rparr>"
proof -
  obtain r w' where g: "getData e ICANN_GTLD_JSON w = (r, w')" by (cases "getData e ICANN_GTLD_JSON w")
  with snd_getData [of e ICANN_GTLD_JSON w] have "w' = w\<lparr>trace := trace w @ [HttpGet ICANN_GTLD_JSON]\<rparr>"
    by simp
  with g show ?thesis by (simp add: getGTLDData_def split: sum.splits)
qed

lemma snd_getTLDData: "snd (getTLDData e w) = w\<lparr>trace := trace w @ [HttpGet ICANN_TLDS]\<rparr>"
proof -
  obtain r w' where g: "getData e ICANN_TLDS w = (r, w')" by (cases "getData e ICANN_TLDS w")
  with snd_getData [of e ICANN_TLDS w] have "w' = w\<lparr>trace := trace w @ [HttpGet ICANN_TLDS]\<rparr>"
    by simp
  with g show ?thesis by (simp add: getTLDData_def split: sum.splits)
qed

lemma renderGTLDMap_invalid:
  assumes "getGTLDData e w0 = (Inr allGTLDs, w1)"
    and "validateGTLDs (timeParse e) (delegatedGTLDs allGTLDs) = Some err"
  shows "renderGTLDMap e wr w0 = (Some err, w1)"
  using assms by (simp add: renderGTLDMap_def)

text \<open>
  C2. When the Source A feed was fetched and decoded and one of its entries
  with a non-empty delegation date has a delegation date that does not parse,
  or a non-empty removal date that does not parse, \<open>renderGTLDMap\<close> returns
  an error and has written nothing: the files and standard output are as before.
\<close>

theorem fail_fast_validation:
  assumes "fst (getGTLDData e w0) = Inr allGTLDs"
    and "g \<in> set allGTLDs" and "DelegationDate g \<noteq> []"
    and "timeParse e (DelegationDate g) \<noteq> None
         \<or> (RemovalDate g \<noteq> [] \<and> timeParse e (RemovalDate g) \<noteq> None)"
  shows "fst (renderGTLDMap e wr w0) \<noteq> None
       \<and> files (snd (renderGTLDMap e wr w0)) = files w0
       \<and> stdout (snd (renderGTLDMap e wr w0)) = stdout w0"
proof -
  let ?w1 = "w0\<lparr>trace := trace w0 @ [HttpGet ICANN_GTLD_JSON]\<rparr>"
  have a: "getGTLDData e w0 = (Inr allGTLDs, ?w1)"
    using assms(1) snd_getGTLDData [of e w0] by (cases "getGTLDData e w0") simp
  have "g \<in> set (delegatedGTLDs allGTLDs)"
    using assms(2,3) by (simp add: delegatedGTLDs_eq)
  with assms(4) have "validateGTLDs (timeParse e) (delegatedGTLDs allGTLDs) \<noteq> None"
    by (auto simp: validateGTLDs_None_iff)
  then obtain err where "validateGTLDs (timeParse e) (delegatedGTLDs allGTLDs) = Some err"
    by blast
  with a have "renderGTLDMap e wr w0 = (Some err, ?w1)"
    by (rule renderGTLDMap_invalid)
  then show ?thesis by simp
qed

theorem fail_fast_validation_witness:
  "fst (getGTLDData envBadDate world0) = Inr [gtldA, gtldBadDate]
   \<and> gtldBadDate \<in> set [gtldA, gtldBadDate] \<and> DelegationDate gtldBadDate \<noteq> []
   \<and> timeParse envBadDate (DelegationDate gtldBadDate) \<noteq> None
   \<and> fst (renderGTLDMap envBadDate Stdout world0) \<noteq> None
   \<and> files (snd (renderGTLDMap envBadDate Stdout world0)) = files world0
   \<and> stdout (snd (renderGTLDMap envBadDate Stdout world0)) = stdout world0"
proof -
  have h1: "fst (getGTLDData envBadDate world0) = Inr [gtldA, gtldBadDate]"
    by (simp add: getGTLDData_def getData_def envBadDate_def envOK_def)
  have h2: "gtldBadDate \<in> set [gtldA, gtldBadDate]" by simp
  have h3: "DelegationDate gtldBadDate \<noteq> []" by (simp add: gtldBadDate_def)
  have h4: "timeParse envBadDate (DelegationDate gtldBadDate) \<noteq> None"
    by (simp add: envBadDate_def envOK_def gtldBadDate_def)
  from h4 have h4': "timeParse envBadDate (DelegationDate gtldBadDate) \<noteq> None
         \<or> (RemovalDate gtldBadDate \<noteq> [] \<and> timeParse envBadDate (RemovalDate gtldBadDate) \<noteq> None)"
    by blast
  from fail_fast_validation [OF h1 h2 h3 h4', of Stdout] h1 h2 h3 h4
  show ?thesis by blast
qed

section \<open>The outcomes of \<open>renderGTLDMap\<close>\<close>

lemma renderGTLDMap_outcome:
  "(\<exists>err w. renderGTLDMap e wr w0 = (Some err, w) \<and> files w = files w0 \<and> stdout w = stdout w0
        \<and> stderr w = stderr w0
        \<and> (trace w = trace w0 @ [HttpGet ICANN_GTLD_JSON]
           \<or> trace w = trace w0 @ [HttpGet ICANN_GTLD_JSON, HttpGet ICANN_TLDS]))
   \<or> (\<exists>allGTLDs respBody formatted.
         formatSource e (gTLDMapTemplate_Execute (htmlEscape e)
            (mergeTLDs (delegatedGTLDs allGTLDs) (parseTLDs (TrimSpace e) (ToLower e) respBody))) = Inr formatted
         \<and> renderGTLDMap e wr w0
             = Write e wr formatted
                 (w0\<lparr>trace := trace w0 @ [HttpGet ICANN_GTLD_JSON, HttpGet ICANN_TLDS]\<rparr>))"
proof -
  let ?w1 = "w0\<lparr>trace := trace w0 @ [HttpGet ICANN_GTLD_JSON]\<rparr>"
  let ?w2 = "w0\<lparr>trace := trace w0 @ [HttpGet ICANN_GTLD_JSON, HttpGet ICANN_TLDS]\<rparr>"
  obtain rA where a: "getGTLDData e w0 = (rA, ?w1)"
    using snd_getGTLDData [of e w0] by (cases "getGTLDData e w0") simp
  obtain rB where b: "getTLDData e ?w1 = (rB, ?w2)"
    using snd_getTLDData [of e ?w1] by (cases "getTLDData e ?w1") simp
  show ?thesis
  proof (cases rA)
    case (Inl err)
    with a have "renderGTLDMap e wr w0 = (Some err, ?w1)" by (simp add: renderGTLDMap_def)
    then show ?thesis by simp
  next
    case (Inr allGTLDs)
    note A = this
    show ?thesis
    proof (cases "validateGTLDs (timeParse e) (delegatedGTLDs allGTLDs)")
      case (Some err)
      with a A have "renderGTLDMap e wr w0 = (Some err, ?w1)" by (simp add: renderGTLDMap_def)
      then show ?thesis by simp
    next
      case None
      note V = this
      show ?thesis
      proof (cases rB)
        case (Inl err)
        with a A V b have "renderGTLDMap e wr w0 = (Some err, ?w2)" by (simp add: renderGTLDMap_def)
        then show ?thesis by simp
      next
        case (Inr allTLDs)
        note B = this
        have "\<exists>respBody. allTLDs = parseTLDs (TrimSpace e) (ToLower e) respBody"
          using b B by (auto simp: getTLDData_def split: prod.splits sum.splits)
        then obtain respBody where P: "allTLDs = parseTLDs (TrimSpace e) (ToLower e) respBody" by blast
        show ?thesis
        proof (cases "templateError e")
          case (Some err)
          with a A V b B have "renderGTLDMap e wr w0 = (Some err, ?w2)"
            by (simp add: renderGTLDMap_def)
          then show ?thesis by simp
        next
          case None
          note T = this
          show ?thesis
          proof (cases "formatSource e (gTLDMapTemplate_Execute (htmlEscape e)
                          (mergeTLDs (delegatedGTLDs allGTLDs) (parseTLDs (TrimSpace e) (ToLower e) respBody)))")
            case (Inl err)
            with a A V b B P T have "renderGTLDMap e wr w0 = (Some err, ?w2)"
              by (simp add: renderGTLDMap_def)
            then show ?thesis by simp
          next
            case (Inr formatted)
            with a A V b B P T have "renderGTLDMap e wr w0 = Write e wr formatted ?w2"
              by (simp add: renderGTLDMap_def)
            with Inr show ?thesis by blast
          qed
        qed
      qed
    qed
  qed
qed

section \<open>Default fill from Source B\<close>

lemma tldEntry_same_label:
  "t \<in> set (parseTLDs trimSpace toLower respBody) \<Longrightarrow>
     t = \<lparr>GTLD = GTLD t, DelegationDate = ''1985-01-01'', RemovalDate = []\<rparr>"
  by (auto simp: parseTLDs_eq tldEntry_def)

lemma hd_filter_in:
  "k \<in> f ` set xs \<Longrightarrow>
     hd (filter (\<lambda>t. f t = k) xs) \<in> set xs \<and> f (hd (filter (\<lambda>t. f t = k) xs)) = k"
proof -
  assume "k \<in> f ` set xs"
  then have "filter (\<lambda>t. f t = k) xs \<noteq> []" by (auto simp: filter_empty_conv)
  then have "hd (filter (\<lambda>t. f t = k) xs) \<in> set (filter (\<lambda>t. f t = k) xs)" by (rule hd_in_set)
  then show ?thesis by simp
qed


lemma parseTLDs_hd:
  assumes "k \<in> GTLD ` set (parseTLDs trimSpace toLower respBody)"
  shows "hd (filter (\<lambda>t. GTLD t = k) (parseTLDs trimSpace toLower respBody))
           = \<lparr>GTLD = k, DelegationDate = ''1985-01-01'', RemovalDate = []\<rparr>"
  using hd_filter_in [OF assms] tldEntry_same_label by metis


lemma labels_parseTLDs:
  "GTLD ` set (parseTLDs trimSpace toLower respBody)
     = toLower ` {l \<in> set (Split_nl respBody). \<not> skipLine trimSpace l}"
proof -
  have "GTLD ` set (parseTLDs trimSpace toLower respBody)
          = (\<lambda>l. GTLD (tldEntry toLower l))
              ` {l \<in> set (Split_nl respBody). \<not> skipLine trimSpace l}"
    by (simp add: parseTLDs_eq image_image)
  also have "(\<lambda>l. GTLD (tldEntry toLower l)) = toLower"
    by (rule ext) (simp add: tldEntry_def)
  finally show ?thesis .
qed

lemma fst_getData: "fst (getData e url w) = fst (getData e url w')"
  by (simp add: getData_def Let_def split: sum.splits)

lemma fst_getTLDData:
  assumes "fst (getData e ICANN_TLDS w) = Inr respBody"
  shows "fst (getTLDData e w') = Inr (parseTLDs (TrimSpace e) (ToLower e) respBody)"
proof -
  from assms fst_getData [of e ICANN_TLDS w' w]
  have "fst (getData e ICANN_TLDS w') = Inr respBody" by simp
  then show ?thesis
    by (cases "getData e ICANN_TLDS w'") (simp add: getTLDData_def)
qed

lemma renderGTLDMap_table:
  assumes A: "fst (getGTLDData e w0) = Inr allGTLDs"
    and V: "validateGTLDs (timeParse e) (delegatedGTLDs allGTLDs) = None"
    and B: "fst (getData e ICANN_TLDS w0) = Inr respBody"
    and T: "templateError e = None"
  shows "renderGTLDMap e wr w0
     = (case formatSource e (gTLDMapTemplate_Execute (htmlEscape e)
               (mergeTLDs (delegatedGTLDs allGTLDs)
                  (parseTLDs (TrimSpace e) (ToLower e) respBody))) of
          Inl err \<Rightarrow>
            (Some err, w0\<lparr>trace := trace w0 @ [HttpGet ICANN_GTLD_JSON, HttpGet ICANN_TLDS]\<rparr>)
        | Inr formatted \<Rightarrow>
            Write e wr formatted
              (w0\<lparr>trace := trace w0 @ [HttpGet ICANN_GTLD_JSON, HttpGet ICANN_TLDS]\<rparr>))"
proof -
  let ?w1 = "w0\<lparr>trace := trace w0 @ [HttpGet ICANN_GTLD_JSON]\<rparr>"
  let ?w2 = "w0\<lparr>trace := trace w0 @ [HttpGet ICANN_GTLD_JSON, HttpGet ICANN_TLDS]\<rparr>"
  have a: "getGTLDData e w0 = (Inr allGTLDs, ?w1)"
    using A snd_getGTLDData [of e w0] by (cases "getGTLDData e w0") simp
  have b: "getTLDData e ?w1 = (Inr (parseTLDs (TrimSpace e) (ToLower e) respBody), ?w2)"
    using fst_getTLDData [OF B, of ?w1] snd_getTLDData [of e ?w1]
    by (cases "getTLDData e ?w1") simp
  show ?thesis
    by (simp add: renderGTLDMap_def a b V T)
qed

text \<open>
  C5. Let the Source A feed be fetched, decoded and valid, and the Source B
  body be fetched. Then \<open>getTLDData\<close> returns one entry for every line of the
  body that is not skipped, in order, with the lower-cased line as label, the
  delegation date 1985-01-01 and an empty removal date; a line is skipped
  exactly when \<open>strings.TrimSpace\<close> makes it empty or it starts with \<open>#\<close>.
  The map that \<open>renderGTLDMap\<close> renders has as keys the delegated Source A
  labels and the lower-cased lines not skipped, and nothing else; a line that
  is not skipped and whose lower-cased form no delegated Source A entry has as
  label is mapped to that default entry.
\<close>

theorem default_fill:
  assumes "fst (getGTLDData e w0) = Inr allGTLDs"
    and "validateGTLDs (timeParse e) (delegatedGTLDs allGTLDs) = None"
    and "fst (getData e ICANN_TLDS w0) = Inr respBody"
    and "templateError e = None"
    and "l \<in> set (Split_nl respBody)"
  shows "\<exists>allTLDs tldMap.
      fst (getTLDData e w0) = Inr allTLDs
    \<and> allTLDs = map (tldEntry (ToLower e))
                   (filter (\<lambda>l. \<not> skipLine (TrimSpace e) l) (Split_nl respBody))
    \<and> tldMap = mergeTLDs (delegatedGTLDs allGTLDs) allTLDs
    \<and> renderGTLDMap e wr w0
         = (case formatSource e (gTLDMapTemplate_Execute (htmlEscape e) tldMap) of
              Inl err \<Rightarrow>
                (Some err, w0\<lparr>trace := trace w0 @ [HttpGet ICANN_GTLD_JSON, HttpGet ICANN_TLDS]\<rparr>)
            | Inr formatted \<Rightarrow>
                Write e wr formatted
                  (w0\<lparr>trace := trace w0 @ [HttpGet ICANN_GTLD_JSON, HttpGet ICANN_TLDS]\<rparr>))
    \<and> (skipLine (TrimSpace e) l \<longleftrightarrow> TrimSpace e l = [] \<or> (\<exists>r. l = CHR ''#'' # r))
    \<and> fst ` set tldMap
         = GTLD ` set (delegatedGTLDs allGTLDs)
           \<union> ToLower e ` {l \<in> set (Split_nl respBody). \<not> skipLine (TrimSpace e) l}
    \<and> (\<not> skipLine (TrimSpace e) l \<longrightarrow>
         ToLower e l \<notin> GTLD ` set (delegatedGTLDs allGTLDs) \<longrightarrow>
         map_of tldMap (ToLower e l)
           = Some \<lparr>GTLD = ToLower e l, DelegationDate = ''1985-01-01'', RemovalDate = []\<rparr>)"
proof -
  let ?B = "parseTLDs (TrimSpace e) (ToLower e) respBody"
  let ?A = "delegatedGTLDs allGTLDs"
  let ?T = "mergeTLDs ?A ?B"
  have 0: "fst (getTLDData e w0) = Inr ?B"
    using assms(3) by (rule fst_getTLDData)
  have 1: "?B = map (tldEntry (ToLower e))
                   (filter (\<lambda>l. \<not> skipLine (TrimSpace e) l) (Split_nl respBody))"
    by (rule parseTLDs_eq)
  have 2: "renderGTLDMap e wr w0
         = (case formatSource e (gTLDMapTemplate_Execute (htmlEscape e) ?T) of
              Inl err \<Rightarrow>
                (Some err, w0\<lparr>trace := trace w0 @ [HttpGet ICANN_GTLD_JSON, HttpGet ICANN_TLDS]\<rparr>)
            | Inr formatted \<Rightarrow>
                Write e wr formatted
                  (w0\<lparr>trace := trace w0 @ [HttpGet ICANN_GTLD_JSON, HttpGet ICANN_TLDS]\<rparr>))"
    using assms(1-4) by (rule renderGTLDMap_table)
  have 3: "skipLine (TrimSpace e) l \<longleftrightarrow> TrimSpace e l = [] \<or> (\<exists>r. l = CHR ''#'' # r)"
    by (simp add: skipLine_def HasPrefix_hash)
  have 4: "fst ` set ?T = GTLD ` set ?A
           \<union> ToLower e ` {l \<in> set (Split_nl respBody). \<not> skipLine (TrimSpace e) l}"
    by (simp add: keys_mergeTLDs labels_parseTLDs)
  have 5: "map_of ?T (ToLower e l)
              = Some \<lparr>GTLD = ToLower e l, DelegationDate = ''1985-01-01'', RemovalDate = []\<rparr>"
    if ns: "\<not> skipLine (TrimSpace e) l" and nA: "ToLower e l \<notin> GTLD ` set ?A"
  proof -
    have inB: "ToLower e l \<in> GTLD ` set ?B"
      using assms(5) ns by (auto simp: labels_parseTLDs)
    then show ?thesis using nA by (simp add: map_of_mergeTLDs parseTLDs_hd)
  qed
  show ?thesis
  proof (intro exI conjI impI)
    show "fst (getTLDData e w0) = Inr ?B" by (rule 0)
    show "?B = map (tldEntry (ToLower e))
                   (filter (\<lambda>l. \<not> skipLine (TrimSpace e) l) (Split_nl respBody))"
      by (rule 1)
    show "?T = mergeTLDs ?A ?B" by (rule refl)
    show "renderGTLDMap e wr w0
         = (case formatSource e (gTLDMapTemplate_Execute (htmlEscape e) ?T) of
              Inl err \<Rightarrow>
                (Some err, w0\<lparr>trace := trace w0 @ [HttpGet ICANN_GTLD_JSON, HttpGet ICANN_TLDS]\<rparr>)
            | Inr formatted \<Rightarrow>
                Write e wr formatted
                  (w0\<lparr>trace := trace w0 @ [HttpGet ICANN_GTLD_JSON, HttpGet ICANN_TLDS]\<rparr>))"
      by (rule 2)
    show "skipLine (TrimSpace e) l = (TrimSpace e l = [] \<or> (\<exists>r. l = CHR ''#'' # r))"
      by (rule 3)
    show "fst ` set ?T = GTLD ` set ?A
           \<union> ToLower e ` {l \<in> set (Split_nl respBody). \<not> skipLine (TrimSpace e) l}"
      by (rule 4)
    show "map_of ?T (ToLower e l)
              = Some \<lparr>GTLD = ToLower e l, DelegationDate = ''1985-01-01'', RemovalDate = []\<rparr>"
      if "\<not> skipLine (TrimSpace e) l" and "ToLower e l \<notin> GTLD ` set ?A"
      using that by (rule 5)
  qed
qed

theorem default_fill_witness:
  "fst (getGTLDData envList world0) = Inr [gtldA]
   \<and> validateGTLDs (timeParse envList) (delegatedGTLDs [gtldA]) = None
   \<and> fst (getData envList ICANN_TLDS world0) = Inr ''# list\<newline>COM\<newline>  \<newline>uk''
   \<and> templateError envList = None
   \<and> ''uk'' \<in> set (Split_nl ''# list\<newline>COM\<newline>  \<newline>uk'')
   \<and> fst (getTLDData envList world0)
        = Inr [\<lparr>GTLD = ''com'', DelegationDate = ''1985-01-01'', RemovalDate = []\<rparr>,
               \<lparr>GTLD = ''uk'', DelegationDate = ''1985-01-01'', RemovalDate = []\<rparr>]
   \<and> map_of (mergeTLDs (delegatedGTLDs [gtldA])
         [\<lparr>GTLD = ''com'', DelegationDate = ''1985-01-01'', RemovalDate = []\<rparr>,
          \<lparr>GTLD = ''uk'', DelegationDate = ''1985-01-01'', RemovalDate = []\<rparr>]) ''uk''
        = Some \<lparr>GTLD = ''uk'', DelegationDate = ''1985-01-01'', RemovalDate = []\<rparr>"
proof -
  let ?body = "''# list\<newline>COM\<newline>  \<newline>uk''"
  let ?B = "[\<lparr>GTLD = ''com'', DelegationDate = ''1985-01-01'', RemovalDate = []\<rparr>,
             \<lparr>GTLD = ''uk'', DelegationDate = ''1985-01-01'', RemovalDate = []\<rparr>]"
  have h1: "fst (getGTLDData envList world0) = Inr [gtldA]"
    by (simp add: getGTLDData_def getData_def envList_fields)
  have h2: "validateGTLDs (timeParse envList) (delegatedGTLDs [gtldA]) = None"
    by (simp add: envList_fields delegatedGTLDs_eq gtldA_def)
  have h3: "fst (getData envList ICANN_TLDS world0) = Inr ?body"
    by (simp add: getData_def envList_fields)
  have h4: "templateError envList = None" by (simp add: envList_fields)
  have h5: "''uk'' \<in> set (Split_nl ?body)" by code_simp
  have ns: "\<not> skipLine (TrimSpace envList) ''uk''"
    unfolding envList_fields by code_simp
  have k: "ToLower envList ''uk'' = ''uk''"
    unfolding envList_fields by code_simp
  have nA: "ToLower envList ''uk'' \<notin> GTLD ` set (delegatedGTLDs [gtldA])"
    unfolding k by code_simp
  have b: "map (tldEntry (ToLower envList))
             (filter (\<lambda>l. \<not> skipLine (TrimSpace envList) l) (Split_nl ?body)) = ?B"
    unfolding envList_fields by code_simp
  from default_fill [OF h1 h2 h3 h4 h5, of Stdout]
  obtain allTLDs tldMap where
    g: "fst (getTLDData envList world0) = Inr allTLDs"
    and a: "allTLDs = map (tldEntry (ToLower envList))
             (filter (\<lambda>l. \<not> skipLine (TrimSpace envList) l) (Split_nl ?body))"
    and t: "tldMap = mergeTLDs (delegatedGTLDs [gtldA]) allTLDs"
    and m: "\<not> skipLine (TrimSpace envList) ''uk'' \<longrightarrow>
         ToLower envList ''uk'' \<notin> GTLD ` set (delegatedGTLDs [gtldA]) \<longrightarrow>
         map_of tldMap (ToLower envList ''uk'')
           = Some \<lparr>GTLD = ToLower envList ''uk'', DelegationDate = ''1985-01-01'',
                   RemovalDate = []\<rparr>"
    by blast
  from a b have ab: "allTLDs = ?B" by simp
  from m ns nA have "map_of tldMap (ToLower envList ''uk'')
           = Some \<lparr>GTLD = ToLower envList ''uk'', DelegationDate = ''1985-01-01'',
                   RemovalDate = []\<rparr>"
    by blast
  then have r: "map_of (mergeTLDs (delegatedGTLDs [gtldA]) ?B) ''uk''
      = Some \<lparr>GTLD = ''uk'', DelegationDate = ''1985-01-01'', RemovalDate = []\<rparr>"
    unfolding k t ab .
  from g ab have g': "fst (getTLDData envList world0) = Inr ?B" by simp
  from h1 h2 h3 h4 h5 g' r show ?thesis by (intro conjI)
qed

section \<open>Duplicate labels within one source\<close>



section \<open>Letter case of the labels\<close>

lemma parseTLDs_COM:
  "parseTLDs asciiTrimSpace asciiToLower ''COM''
     = [\<lparr>GTLD = ''com'', DelegationDate = ''1985-01-01'', RemovalDate = []\<rparr>]"
  by code_simp

lemma mergeTLDs_COM:
  "mergeTLDs (delegatedGTLDs [gtldUpper])
      [\<lparr>GTLD = ''com'', DelegationDate = ''1985-01-01'', RemovalDate = []\<rparr>]
     = [(''COM'', gtldUpper),
        (''com'', \<lparr>GTLD = ''com'', DelegationDate = ''1985-01-01'', RemovalDate = []\<rparr>)]"
  by code_simp

text \<open>
  C3, at the input on which the code departs from it: Source A has one
  delegated entry with the label \<open>COM\<close>, and the body of Source B is the line
  \<open>COM\<close>. The label is in both feeds. \<open>getGTLDData\<close> hands the Source A
  label on as it is, \<open>getTLDData\<close> lower-cases the Source B line, and the
  second loop of \<open>renderGTLDMap\<close> does not find \<open>com\<close> among the keys: the
  table keeps Source A's record under \<open>COM\<close> and also holds the Source B
  entry, with the default date, under \<open>com\<close>.
\<close>

theorem source_B_entry_beside_source_A:
  "fst (getGTLDData envUpper world0) = Inr [gtldUpper]
   \<and> fst (getData envUpper ICANN_TLDS world0) = Inr ''COM''
   \<and> fst (getTLDData envUpper world0)
        = Inr [\<lparr>GTLD = ''com'', DelegationDate = ''1985-01-01'', RemovalDate = []\<rparr>]
   \<and> map_of (mergeTLDs (delegatedGTLDs [gtldUpper])
               [\<lparr>GTLD = ''com'', DelegationDate = ''1985-01-01'', RemovalDate = []\<rparr>]) ''COM''
        = Some gtldUpper
   \<and> map_of (mergeTLDs (delegatedGTLDs [gtldUpper])
               [\<lparr>GTLD = ''com'', DelegationDate = ''1985-01-01'', RemovalDate = []\<rparr>]) ''com''
        = Some \<lparr>GTLD = ''com'', DelegationDate = ''1985-01-01'', RemovalDate = []\<rparr>"
proof (intro conjI)
  show "fst (getGTLDData envUpper world0) = Inr [gtldUpper]"
    by (simp add: getGTLDData_def getData_def envUpper_fields)
  show b: "fst (getData envUpper ICANN_TLDS world0) = Inr ''COM''"
    by (simp add: getData_def envUpper_fields)
  show "fst (getTLDData envUpper world0)
        = Inr [\<lparr>GTLD = ''com'', DelegationDate = ''1985-01-01'', RemovalDate = []\<rparr>]"
    using fst_getTLDData [OF b, of world0] by (simp add: envUpper_fields parseTLDs_COM)
  show "map_of (mergeTLDs (delegatedGTLDs [gtldUpper])
               [\<lparr>GTLD = ''com'', DelegationDate = ''1985-01-01'', RemovalDate = []\<rparr>]) ''COM''
        = Some gtldUpper"
    unfolding mergeTLDs_COM by simp
  show "map_of (mergeTLDs (delegatedGTLDs [gtldUpper])
               [\<lparr>GTLD = ''com'', DelegationDate = ''1985-01-01'', RemovalDate = []\<rparr>]) ''com''
        = Some \<lparr>GTLD = ''com'', DelegationDate = ''1985-01-01'', RemovalDate = []\<rparr>"
    unfolding mergeTLDs_COM by simp
qed

text \<open>
  C8, at the same input: the run succeeds, and what \<open>renderGTLDMap\<close> writes
  is the template executed on a map with the two keys \<open>COM\<close> and \<open>com\<close>. The
  key \<open>COM\<close> is not in lower case, and the label, which differs between the
  feeds at most in letter case, has two entries.
\<close>

theorem upper_case_key_rendered:
  "renderGTLDMap envUpper Stdout world0
     = (None,
        world0\<lparr>trace := [HttpGet ICANN_GTLD_JSON, HttpGet ICANN_TLDS],
               stdout := gTLDMapTemplate_Execute (\<lambda>s. s)
                 [(''COM'', gtldUpper),
                  (''com'', \<lparr>GTLD = ''com'', DelegationDate = ''1985-01-01'',
                             RemovalDate = []\<rparr>)]\<rparr>)"
proof -
  have A: "fst (getGTLDData envUpper world0) = Inr [gtldUpper]"
    by (simp add: getGTLDData_def getData_def envUpper_fields)
  have V: "validateGTLDs (timeParse envUpper) (delegatedGTLDs [gtldUpper]) = None"
    by (simp add: envUpper_fields delegatedGTLDs_eq gtldUpper_def)
  have B: "fst (getData envUpper ICANN_TLDS world0) = Inr ''COM''"
    by (simp add: getData_def envUpper_fields)
  have T: "templateError envUpper = None" by (simp add: envUpper_fields)
  have tr: "trace world0 = []" and so: "stdout world0 = []" by (simp_all add: world0_def)
  show ?thesis
    unfolding renderGTLDMap_table [OF A V B T]
    by (simp add: envUpper_fields parseTLDs_COM mergeTLDs_COM Write_def tr so)
qed

section \<open>The fixed entry for onion\<close>

lemma Write_Stdout:
  "writeResult e p = (n, err) \<Longrightarrow>
     Write e Stdout p w = (err, w\<lparr>stdout := stdout w @ take n p\<rparr>)"
  by (simp add: Write_def)

lemma Write_File:
  "writeResult e p = (n, err) \<Longrightarrow>
     Write e (File name) p w
       = (err, w\<lparr>files := (files w)(name \<mapsto>
                  writeAt0 (case files w name of None \<Rightarrow> [] | Some old \<Rightarrow> old) (take n p))\<rparr>)"
  by (simp add: Write_def)

lemma template_ends_with_onion:
  "gTLDMapTemplate_Execute esc tldMap
     = (templateHeader @ concat (map (\<lambda>kv. templateEntry esc (snd kv)) (sort_key fst tldMap))
        @ [CHR 0x0A] @ onionComment) @ onionEntry @ withNewlines [''}'']"
  by (simp add: gTLDMapTemplate_Execute_def templateFooter_def)

text \<open>
  C6. Whatever map is rendered, the text the template produces ends with the
  fixed entry for \<open>onion\<close>, with delegation date 2015-02-18 and an empty
  removal date, followed by the closing brace; the feeds have no part in it.
  When \<open>renderGTLDMap\<close> succeeds, what reaches the writer is the result of
  \<open>format.Source\<close> on such a text.
\<close>

theorem onion_always_rendered:
  \<open>(\<exists>pre. gTLDMapTemplate_Execute esc tldMap
        = pre @ withNewlines
            [TAB @ ''"onion": {'',
             TAB @ TAB @ ''GTLD: "onion",'',
             TAB @ TAB @ ''DelegationDate: "2015-02-18",'',
             TAB @ TAB @ ''RemovalDate: "",'',
             TAB @ ''},'',
             ''}''])
   \<and> (fst (renderGTLDMap e wr w0) = None \<longrightarrow>
        (\<exists>allGTLDs respBody formatted n.
           formatSource e (gTLDMapTemplate_Execute (htmlEscape e)
              (mergeTLDs (delegatedGTLDs allGTLDs) (parseTLDs (TrimSpace e) (ToLower e) respBody))) = Inr formatted
           \<and> writeResult e formatted = (n, None)
           \<and> (wr = Stdout \<longrightarrow> stdout (snd (renderGTLDMap e wr w0)) = stdout w0 @ take n formatted)
           \<and> (\<forall>name. wr = File name \<longrightarrow>
                files (snd (renderGTLDMap e wr w0)) name
                  = Some (writeAt0 (case files w0 name of None \<Rightarrow> [] | Some old \<Rightarrow> old)
                            (take n formatted)))))\<close>
proof (intro conjI impI)
  have "withNewlines
            [TAB @ ''\"onion\": {'',
             TAB @ TAB @ ''GTLD: \"onion\",'',
             TAB @ TAB @ ''DelegationDate: \"2015-02-18\",'',
             TAB @ TAB @ ''RemovalDate: \"\",'',
             TAB @ ''},'',
             ''}''] = onionEntry @ withNewlines [''}'']"
    by (simp add: onionEntry_def withNewlines_def)
  with template_ends_with_onion [of esc tldMap]
  show "\<exists>pre. gTLDMapTemplate_Execute esc tldMap
        = pre @ withNewlines
            [TAB @ ''\"onion\": {'',
             TAB @ TAB @ ''GTLD: \"onion\",'',
             TAB @ TAB @ ''DelegationDate: \"2015-02-18\",'',
             TAB @ TAB @ ''RemovalDate: \"\",'',
             TAB @ ''},'',
             ''}'']"
    by metis
next
  assume ok: "fst (renderGTLDMap e wr w0) = None"
  let ?w2 = "w0\<lparr>trace := trace w0 @ [HttpGet ICANN_GTLD_JSON, HttpGet ICANN_TLDS]\<rparr>"
  from renderGTLDMap_outcome [of e wr w0] ok
  obtain allGTLDs respBody formatted where
    f: "formatSource e (gTLDMapTemplate_Execute (htmlEscape e)
            (mergeTLDs (delegatedGTLDs allGTLDs) (parseTLDs (TrimSpace e) (ToLower e) respBody))) = Inr formatted"
    and r: "renderGTLDMap e wr w0 = Write e wr formatted ?w2"
    by auto
  obtain n err where wres: "writeResult e formatted = (n, err)"
    by (cases "writeResult e formatted")
  have "err = None"
  proof (cases wr)
    case Stdout
    with ok r Write_Stdout [OF wres, of ?w2] show ?thesis by simp
  next
    case (File name)
    with ok r Write_File [OF wres, of name ?w2] show ?thesis by simp
  qed
  with wres have wres': "writeResult e formatted = (n, None)" by simp
  have s: "wr = Stdout \<longrightarrow> stdout (snd (renderGTLDMap e wr w0)) = stdout w0 @ take n formatted"
    using r Write_Stdout [OF wres', of ?w2] by auto
  have fl: "\<forall>name. wr = File name \<longrightarrow>
                files (snd (renderGTLDMap e wr w0)) name
                  = Some (writeAt0 (case files w0 name of None \<Rightarrow> [] | Some old \<Rightarrow> old)
                            (take n formatted))"
    using r Write_File [OF wres', of _ ?w2] by auto
  from f wres' s fl
  show "\<exists>allGTLDs respBody formatted n.
           formatSource e (gTLDMapTemplate_Execute (htmlEscape e)
              (mergeTLDs (delegatedGTLDs allGTLDs) (parseTLDs (TrimSpace e) (ToLower e) respBody))) = Inr formatted
           \<and> writeResult e formatted = (n, None)
           \<and> (wr = Stdout \<longrightarrow> stdout (snd (renderGTLDMap e wr w0)) = stdout w0 @ take n formatted)
           \<and> (\<forall>name. wr = File name \<longrightarrow>
                files (snd (renderGTLDMap e wr w0)) name
                  = Some (writeAt0 (case files w0 name of None \<Rightarrow> [] | Some old \<Rightarrow> old)
                            (take n formatted)))"
    by blast
qed

theorem onion_always_rendered_witness:
  \<open>fst (renderGTLDMap envOK Stdout world0) = None
   \<and> (\<exists>pre. stdout (snd (renderGTLDMap envOK Stdout world0))
        = pre @ withNewlines
            [TAB @ ''"onion": {'',
             TAB @ TAB @ ''GTLD: "onion",'',
             TAB @ TAB @ ''DelegationDate: "2015-02-18",'',
             TAB @ TAB @ ''RemovalDate: "",'',
             TAB @ ''},'',
             ''}''])\<close>
proof -
  have h: "fst (renderGTLDMap envOK Stdout world0) = None"
    by (simp add: renderGTLDMap_def getGTLDData_def getTLDData_def getData_def envOK_fields
        delegatedGTLDs_eq gtldA_def Write_def)
  note t = onion_always_rendered [of _ _ envOK Stdout world0]
  from t [THEN conjunct2] h
  obtain allGTLDs respBody formatted n where
    f: "formatSource envOK (gTLDMapTemplate_Execute (htmlEscape envOK)
              (mergeTLDs (delegatedGTLDs allGTLDs) (parseTLDs (TrimSpace envOK) (ToLower envOK) respBody))) = Inr formatted"
    and w: "writeResult envOK formatted = (n, None)"
    and s: "stdout (snd (renderGTLDMap envOK Stdout world0)) = stdout world0 @ take n formatted"
    by blast
  from w have n: "n = length formatted" by (simp add: envOK_fields)
  from f have "formatted = gTLDMapTemplate_Execute (\<lambda>s. s)
              (mergeTLDs (delegatedGTLDs allGTLDs) (parseTLDs (TrimSpace envOK) (ToLower envOK) respBody))"
    by (simp add: envOK_fields)
  with s n have "stdout (snd (renderGTLDMap envOK Stdout world0))
      = gTLDMapTemplate_Execute (\<lambda>s. s) (mergeTLDs (delegatedGTLDs allGTLDs) (parseTLDs (TrimSpace envOK) (ToLower envOK) respBody))"
    by (simp add: world0_def)
  with t [THEN conjunct1, of "\<lambda>s. s" "mergeTLDs (delegatedGTLDs allGTLDs) (parseTLDs (TrimSpace envOK) (ToLower envOK) respBody)"] h
  show ?thesis by simp
qed

section \<open>The output file of \<open>main\<close>\<close>





section \<open>The execution contract of a lint\<close>

text \<open>
  C4. A lint that declares the window \<open>[start, stop)\<close> returns \<open>NotApplicable\<close>
  for a certificate issued before \<open>start\<close> or at or after \<open>stop\<close>, whatever
  its applicability predicate and its verdict function do.
\<close>

theorem effectivity_gate:
  assumes "lint_window lint = Some (start, stop)"
    and "issued cert < start \<or> stop \<le> issued cert"
  shows "execute issued lint cert = \<lparr>status = NotApplicable, detail = None\<rparr>"
  using assms by (simp add: execute_def outsideWindow_def)

theorem effectivity_gate_witness:
  "lint_window lintFaulty = Some (100, 200)
   \<and> (issuedAt (50::int) < 100 \<or> 200 \<le> issuedAt (50::int))
   \<and> (issuedAt (200::int) < 100 \<or> 200 \<le> issuedAt (200::int))
   \<and> execute issuedAt lintFaulty 50 = \<lparr>status = NotApplicable, detail = None\<rparr>
   \<and> execute issuedAt lintFaulty 200 = \<lparr>status = NotApplicable, detail = None\<rparr>"
proof -
  have w: "lint_window lintFaulty = Some (100, 200)" by (simp add: lintFaulty_def)
  have b: "issuedAt (50::int) < 100 \<or> 200 \<le> issuedAt (50::int)" by (simp add: issuedAt_def)
  have a: "issuedAt (200::int) < 100 \<or> 200 \<le> issuedAt (200::int)" by (simp add: issuedAt_def)
  from effectivity_gate [of lintFaulty 100 200 issuedAt 50, OF w b]
    effectivity_gate [of lintFaulty 100 200 issuedAt 200, OF w a] w a b
  show ?thesis by (intro conjI)
qed

text \<open>
  C1. \<open>execute\<close> returns one result, whose status is one of the five; a fault
  of the applicability predicate or of the verdict function becomes a
  \<open>Fatal\<close> result that carries the fault's message; and a batch has, for
  every certificate and every lint, the result of that lint on that
  certificate, whichever of the other runs met a fault.
\<close>

theorem execute_contains_faults:
  "status (execute issued lint cert) \<in> {NotApplicable, Pass, Warn, Error, Fatal}
   \<and> (\<not> outsideWindow (lint_window lint) (issued cert) \<longrightarrow>
        lint_applies lint cert = Inl msg \<longrightarrow>
        execute issued lint cert = \<lparr>status = Fatal, detail = Some msg\<rparr>)
   \<and> (\<not> outsideWindow (lint_window lint) (issued cert) \<longrightarrow>
        lint_applies lint cert = Inr True \<longrightarrow> lint_verdict lint cert = Inl msg \<longrightarrow>
        execute issued lint cert = \<lparr>status = Fatal, detail = Some msg\<rparr>)
   \<and> length (executeBatch issued lints certs) = length certs
   \<and> (\<forall>i < length certs. length (executeBatch issued lints certs ! i) = length lints
        \<and> (\<forall>j < length lints.
              executeBatch issued lints certs ! i ! j = execute issued (lints ! j) (certs ! i)))"
proof (intro conjI impI allI)
  show "status (execute issued lint cert) \<in> {NotApplicable, Pass, Warn, Error, Fatal}"
    by (cases "status (execute issued lint cert)") simp_all
next
  assume "\<not> outsideWindow (lint_window lint) (issued cert)" and "lint_applies lint cert = Inl msg"
  then show "execute issued lint cert = \<lparr>status = Fatal, detail = Some msg\<rparr>"
    by (simp add: execute_def)
next
  assume "\<not> outsideWindow (lint_window lint) (issued cert)" and "lint_applies lint cert = Inr True"
    and "lint_verdict lint cert = Inl msg"
  then show "execute issued lint cert = \<lparr>status = Fatal, detail = Some msg\<rparr>"
    by (simp add: execute_def)
next
  show "length (executeBatch issued lints certs) = length certs"
    by (simp add: executeBatch_def)
next
  fix i assume "i < length certs"
  then show "length (executeBatch issued lints certs ! i) = length lints"
    by (simp add: executeBatch_def)
next
  fix i j assume "i < length certs" and "j < length lints"
  then show "executeBatch issued lints certs ! i ! j = execute issued (lints ! j) (certs ! i)"
    by (simp add: executeBatch_def)
qed

theorem execute_contains_faults_witness:
  "\<not> outsideWindow (lint_window lintFaulty) (issuedAt (150::int))
   \<and> lint_applies lintFaulty 150 = Inl ''index out of range''
   \<and> execute issuedAt lintFaulty 150 = \<lparr>status = Fatal, detail = Some ''index out of range''\<rparr>
   \<and> executeBatch issuedAt [lintFaulty, lintSound] [150, 50]
       = [[\<lparr>status = Fatal, detail = Some ''index out of range''\<rparr>,
           \<lparr>status = Error, detail = Some ''violated''\<rparr>],
          [\<lparr>status = NotApplicable, detail = None\<rparr>,
           \<lparr>status = Error, detail = Some ''violated''\<rparr>]]"
proof -
  have h1: "\<not> outsideWindow (lint_window lintFaulty) (issuedAt (150::int))"
    by (simp add: outsideWindow_def lintFaulty_def issuedAt_def)
  have h2: "lint_applies lintFaulty 150 = Inl ''index out of range''"
    by (simp add: lintFaulty_def)
  note t = execute_contains_faults [of issuedAt lintFaulty 150 "''index out of range''"
      "[lintFaulty, lintSound]" "[150, 50]"]
  from t h1 h2 have f: "execute issuedAt lintFaulty 150
      = \<lparr>status = Fatal, detail = Some ''index out of range''\<rparr>"
    by blast
  have b: "executeBatch issuedAt [lintFaulty, lintSound] [150, 50]
       = [[\<lparr>status = Fatal, detail = Some ''index out of range''\<rparr>,
           \<lparr>status = Error, detail = Some ''violated''\<rparr>],
          [\<lparr>status = NotApplicable, detail = None\<rparr>,
           \<lparr>status = Error, detail = Some ''violated''\<rparr>]]"
    unfolding executeBatch_def list.map f
    by (simp add: execute_def outsideWindow_def lintFaulty_def lintSound_def issuedAt_def)
  from h1 h2 f b show ?thesis by (intro conjI)
qed

end
